theory Spec2Isabelle
  imports Main "HOL-Library.AList" "HOL-Library.Word"
begin

section \<open>Go strings, runes and the unicode package\<close>

text \<open>
  A Go \<^verbatim>\<open>string\<close> is a sequence of bytes; it is modelled as a \<^typ>\<open>string\<close>, whose
  characters are 8-bit. A \<^verbatim>\<open>rune\<close> is a code point, modelled as a \<^typ>\<open>nat\<close> (no rune
  of this program is negative). Indexing a string (\<^verbatim>\<open>s[0]\<close>) reads a byte; ranging over
  it (\<^verbatim>\<open>for i, ch := range s\<close>) decodes UTF-8 and yields byte offsets and runes.

  \<^verbatim>\<open>unicode.IsLetter\<close>, \<^verbatim>\<open>unicode.IsDigit\<close> and \<^verbatim>\<open>unicode.ToLower\<close> decide Latin-1
  (respectively ASCII) code points by a fixed rule and consult the Unicode range tables
  above that. The tables belong to the Go release the program is built with; they are a
  parameter of the model.
\<close>

record unicode_tables =
  Letter :: "nat \<Rightarrow> bool"
  Digit :: "nat \<Rightarrow> bool"
  LowerCase :: "nat \<Rightarrow> nat"

definition MaxASCII :: nat where
  "MaxASCII = 0x7F"

definition MaxLatin1 :: nat where
  "MaxLatin1 = 0xFF"

definition RuneError :: nat where
  "RuneError = 0xFFFD"

text \<open>The letters of Latin-1: A-Z, a-z, U+00AA, U+00B5, U+00BA, U+00C0-U+00D6,
  U+00D8-U+00F6 and U+00F8-U+00FF.\<close>

definition latin1_letter :: "nat \<Rightarrow> bool" where
  "latin1_letter r =
     ((0x41 \<le> r \<and> r \<le> 0x5A) \<or> (0x61 \<le> r \<and> r \<le> 0x7A) \<or> r = 0xAA \<or> r = 0xB5 \<or> r = 0xBA
      \<or> (0xC0 \<le> r \<and> r \<le> 0xD6) \<or> (0xD8 \<le> r \<and> r \<le> 0xF6) \<or> (0xF8 \<le> r \<and> r \<le> 0xFF))"

definition unicode_IsLetter :: "unicode_tables \<Rightarrow> nat \<Rightarrow> bool" where
  "unicode_IsLetter U r = (if r \<le> MaxLatin1 then latin1_letter r else Letter U r)"

definition unicode_IsDigit :: "unicode_tables \<Rightarrow> nat \<Rightarrow> bool" where
  "unicode_IsDigit U r = (if r \<le> MaxLatin1 then 0x30 \<le> r \<and> r \<le> 0x39 else Digit U r)"

definition unicode_ToLower :: "unicode_tables \<Rightarrow> nat \<Rightarrow> nat" where
  "unicode_ToLower U r =
     (if r \<le> MaxASCII then (if 0x41 \<le> r \<and> r \<le> 0x5A then r + 0x20 else r)
      else LowerCase U r)"

subsection \<open>UTF-8\<close>

text \<open>\<^verbatim>\<open>utf8.DecodeRuneInString\<close>: the rune at the head of the string and its width in
  bytes. A byte that does not start a well-formed sequence decodes to \<^const>\<open>RuneError\<close>
  with width 1. The three functions below are the table \<^verbatim>\<open>first\<close> and the accept ranges
  of the second byte.\<close>

definition utf8_size :: "nat \<Rightarrow> nat" where
  "utf8_size s0 =
     (if 0xC2 \<le> s0 \<and> s0 \<le> 0xDF then 2
      else if 0xE0 \<le> s0 \<and> s0 \<le> 0xEF then 3
      else if 0xF0 \<le> s0 \<and> s0 \<le> 0xF4 then 4
      else 1)"

definition accept_lo :: "nat \<Rightarrow> nat" where
  "accept_lo s0 = (if s0 = 0xE0 then 0xA0 else if s0 = 0xF0 then 0x90 else 0x80)"

definition accept_hi :: "nat \<Rightarrow> nat" where
  "accept_hi s0 = (if s0 = 0xED then 0x9F else if s0 = 0xF4 then 0x8F else 0xBF)"

definition DecodeRuneInBytes :: "nat list \<Rightarrow> nat \<times> nat" where
  "DecodeRuneInBytes bs =
     (let n = length bs in
      if n < 1 then (RuneError, 0)
      else
        let s0 = bs ! 0; sz = utf8_size s0 in
        if s0 < 0x80 then (s0, 1)
        else if sz = 1 then (RuneError, 1)
        else if n < sz then (RuneError, 1)
        else
          let s1 = bs ! 1 in
          if s1 < accept_lo s0 \<or> accept_hi s0 < s1 then (RuneError, 1)
          else if sz \<le> 2 then ((s0 mod 0x20) * 0x40 + s1 mod 0x40, 2)
          else
            let s2 = bs ! 2 in
            if s2 < 0x80 \<or> 0xBF < s2 then (RuneError, 1)
            else if sz \<le> 3 then
              ((s0 mod 0x10) * 0x1000 + (s1 mod 0x40) * 0x40 + s2 mod 0x40, 3)
            else
              let s3 = bs ! 3 in
              if s3 < 0x80 \<or> 0xBF < s3 then (RuneError, 1)
              else ((s0 mod 8) * 0x40000 + (s1 mod 0x40) * 0x1000
                      + (s2 mod 0x40) * 0x40 + s3 mod 0x40, 4))"

definition DecodeRuneInString :: "string \<Rightarrow> nat \<times> nat" where
  "DecodeRuneInString s = DecodeRuneInBytes (map of_char (take 4 s))"

text \<open>\<^verbatim>\<open>utf8.EncodeRune\<close>, which is also the conversion \<^verbatim>\<open>string(ch)\<close> of a rune: a
  surrogate or a value above U+10FFFF is written as U+FFFD.\<close>

definition EncodeRune :: "nat \<Rightarrow> string" where
  "EncodeRune r =
     map char_of
       (if r \<le> 0x7F then [r]
        else if r \<le> 0x7FF then [0xC0 + r div 0x40, 0x80 + r mod 0x40]
        else if 0x10FFFF < r \<or> (0xD800 \<le> r \<and> r \<le> 0xDFFF) then [0xEF, 0xBF, 0xBD]
        else if r \<le> 0xFFFF then
          [0xE0 + r div 0x1000, 0x80 + (r div 0x40) mod 0x40, 0x80 + r mod 0x40]
        else
          [0xF0 + r div 0x40000, 0x80 + (r div 0x1000) mod 0x40,
           0x80 + (r div 0x40) mod 0x40, 0x80 + r mod 0x40])"

text \<open>\<^verbatim>\<open>for i, ch := range s\<close>: the pairs of byte offset and rune, in order; \<open>i\<close> is the
  offset of the head of \<open>s\<close> in the string being ranged over.\<close>

function range_string :: "nat \<Rightarrow> string \<Rightarrow> (nat \<times> nat) list" where
  "range_string i s =
     (if s = [] then []
      else (i, fst (DecodeRuneInString s))
             # range_string (i + snd (DecodeRuneInString s)) (drop (snd (DecodeRuneInString s)) s))"
  by pat_completeness auto
termination
proof (relation "measure (\<lambda>(i, s). length s)")
  show "wf (measure (\<lambda>(i, s). length s))"
    by simp
next
  fix i :: nat and s :: string
  assume "s \<noteq> []"
  then have "0 < snd (DecodeRuneInString s)"
    by (cases s) (simp_all add: DecodeRuneInString_def DecodeRuneInBytes_def Let_def)
  with \<open>s \<noteq> []\<close>
  show "((i + snd (DecodeRuneInString s), drop (snd (DecodeRuneInString s)) s), (i, s))
          \<in> measure (\<lambda>(i, s). length s)"
    by simp
qed

declare range_string.simps [simp del]

subsection \<open>The strings package\<close>

text \<open>\<^verbatim>\<open>strings.ReplaceAll(s, old, new)\<close> where \<open>old\<close> and \<open>new\<close> are one byte each, the
  only use the program makes of it.\<close>

definition strings_ReplaceAll :: "string \<Rightarrow> char \<Rightarrow> char \<Rightarrow> string" where
  "strings_ReplaceAll s old new = map (\<lambda>c. if c = old then new else c) s"

text \<open>\<^verbatim>\<open>strings.ToLower\<close>: a string of ASCII bytes is lowered byte by byte; any other
  string goes through \<^verbatim>\<open>strings.Map(unicode.ToLower, s)\<close>, which decodes each rune, maps
  it and encodes the result (an ill-formed byte comes out as the encoding of U+FFFD).\<close>

definition strings_Map :: "(nat \<Rightarrow> nat) \<Rightarrow> string \<Rightarrow> string" where
  "strings_Map mapping s = concat (map (\<lambda>(i, c). EncodeRune (mapping c)) (range_string 0 s))"

definition strings_ToLower :: "unicode_tables \<Rightarrow> string \<Rightarrow> string" where
  "strings_ToLower U s =
     (if list_all (\<lambda>c. (of_char c :: nat) < 0x80) s then
        map (\<lambda>c. if 0x41 \<le> (of_char c :: nat) \<and> (of_char c :: nat) \<le> 0x5A
                  then char_of ((of_char c :: nat) + 0x20) else c) s
      else strings_Map (unicode_ToLower U) s)"

section \<open>The name canonicalizer\<close>

text \<open>The first loop of \<^verbatim>\<open>formatServiceName\<close> drops leading bytes while the byte, read
  as a rune (\<^verbatim>\<open>rune(formattedName[0])\<close>), is not a letter.\<close>

fun strip_leading :: "unicode_tables \<Rightarrow> string \<Rightarrow> string" where
  "strip_leading U [] = []"
| "strip_leading U (c # cs) =
     (if \<not> unicode_IsLetter U (of_char c) then strip_leading U cs else c # cs)"

text \<open>The second loop ranges over the runes of \<open>formattedName\<close>, whose length in bytes is
  \<open>n\<close>. It appends the letters, digits and hyphens to \<open>temp\<close>, and at the last byte offset,
  when the rune there is a hyphen, removes the last byte of \<open>temp\<close> (which is that hyphen,
  appended by the statement before, so the slice \<^verbatim>\<open>temp[:len(temp)-1]\<close> is in range).\<close>

fun keep_valid :: "unicode_tables \<Rightarrow> nat \<Rightarrow> (nat \<times> nat) list \<Rightarrow> string \<Rightarrow> string" where
  "keep_valid U n [] temp = temp"
| "keep_valid U n ((i, ch) # rest) temp =
     (let temp1 = (if unicode_IsLetter U ch \<or> unicode_IsDigit U ch \<or> ch = 0x2D
                   then temp @ EncodeRune ch else temp);
          temp2 = (if int i = int n - 1 \<and> ch = 0x2D
                   then take (length temp1 - 1) temp1 else temp1)
      in keep_valid U n rest temp2)"

definition formatServiceName :: "unicode_tables \<Rightarrow> string \<Rightarrow> string" where
  "formatServiceName U serviceName =
     (let formattedName = strings_ReplaceAll serviceName (CHR ''.'') (CHR ''-'');
          formattedName = strings_ToLower U formattedName;
          formattedName = strip_leading U formattedName
      in keep_valid U (length formattedName) (range_string 0 formattedName) [])"

subsection \<open>The naming rule of the specification\<close>

text \<open>A canonical name matches \<^verbatim>\<open>^[a-z]([a-z0-9-]*[a-z0-9])?$\<close>: it starts with a letter
  of a-z, consists of a-z, 0-9 and hyphens, and does not end with a hyphen. \<open>valid_byte\<close>
  is the test of the second loop of \<open>formatServiceName\<close> on a byte that is a rune of its
  own, and \<open>lower_byte\<close> is what \<^verbatim>\<open>strings.ToLower\<close> does to a byte of an ASCII string.\<close>

definition is_ascii :: "string \<Rightarrow> bool" where
  "is_ascii s = list_all (\<lambda>c. (of_char c :: nat) < 0x80) s"

definition lower_letter :: "char \<Rightarrow> bool" where
  "lower_letter c = (0x61 \<le> (of_char c :: nat) \<and> (of_char c :: nat) \<le> 0x7A)"

definition name_char :: "char \<Rightarrow> bool" where
  "name_char c =
     (lower_letter c \<or> (0x30 \<le> (of_char c :: nat) \<and> (of_char c :: nat) \<le> 0x39) \<or> c = CHR ''-'')"

definition canonical :: "string \<Rightarrow> bool" where
  "canonical s = (s \<noteq> [] \<and> lower_letter (hd s) \<and> list_all name_char s \<and> last s \<noteq> CHR ''-'')"

definition valid_byte :: "unicode_tables \<Rightarrow> char \<Rightarrow> bool" where
  "valid_byte U c =
     (unicode_IsLetter U (of_char c) \<or> unicode_IsDigit U (of_char c) \<or> (of_char c :: nat) = 0x2D)"

definition lower_byte :: "char \<Rightarrow> char" where
  "lower_byte c = (if 0x41 \<le> (of_char c :: nat) \<and> (of_char c :: nat) \<le> 0x5A
                   then char_of ((of_char c :: nat) + 0x20) else c)"

section \<open>Cluster objects and payload structures\<close>

text \<open>The fields of the Kubernetes objects that the program reads. \<open>Type\<close> is
  \<^verbatim>\<open>service.Spec.Type\<close> (a string; \<^verbatim>\<open>corev1.ServiceTypeNodePort\<close> is \<^verbatim>\<open>"NodePort"\<close>),
  \<open>NodeName\<close> is \<^verbatim>\<open>pod.Spec.NodeName\<close>, \<open>Addresses\<close> is \<^verbatim>\<open>node.Status.Addresses\<close>
  (\<^verbatim>\<open>corev1.NodeInternalIP\<close> is \<^verbatim>\<open>"InternalIP"\<close>).\<close>

type_synonym int32 = "32 word"

record ServicePort =
  NodePort :: int32

record Service =
  Name :: string
  Namespace :: string
  Selector :: "string \<rightharpoonup> string"
  Ports :: "ServicePort list"
  Type :: string

record Pod =
  Pod_Name :: string
  NodeName :: string

record NodeAddress =
  Address_Type :: string
  Address :: string

record Node =
  Addresses :: "NodeAddress list"

definition ServiceTypeNodePort :: string where
  "ServiceTypeNodePort = ''NodePort''"

definition NodeInternalIP :: string where
  "NodeInternalIP = ''InternalIP''"

text \<open>The payload structures are those of the revision of \<^verbatim>\<open>structures.go\<close> that
  \<^verbatim>\<open>originsync.go\<close> compiles against: \<open>Port\<close> is an \<^verbatim>\<open>int32\<close>, \<open>Site\<close> has no tenant
  and \<open>Delete\<close> is declared. A \<^verbatim>\<open>map[string]interface{}\<close> is \<open>None\<close> when nil (its
  JSON is \<^verbatim>\<open>null\<close>) and \<open>Some\<close> of its entries otherwise (\<open>Some []\<close> is \<^verbatim>\<open>{}\<close>).\<close>

type_synonym map_string_interface = "(string \<times> string) list option"

record Site =
  Site_Namespace :: string
  Site_Name :: string
  Kind :: string

record SiteLocator =
  Site :: Site

record PrivateIP =
  IP :: string
  SiteLocator :: SiteLocator
  InsideNetwork :: map_string_interface
  OutsideNetwork :: map_string_interface

record OriginServer =
  PrivateIP :: PrivateIP

record Spec =
  OriginServers :: "OriginServer list"
  NoTLS :: map_string_interface
  Port :: int32
  SameAsEndpointPort :: map_string_interface
  LoadbalancerAlgorithm :: string
  EndpointSelection :: string

record Metadata =
  Metadata_Name :: string
  Description :: string
  Disable :: bool

record OriginPool =
  Metadata :: Metadata
  Spec :: Spec

record Delete =
  FailIfReferred :: bool
  Delete_Name :: string
  Delete_Namespace :: string

section \<open>The world outside the process\<close>

text \<open>A request body is the value that was marshalled; \<^verbatim>\<open>json.Marshal\<close> cannot fail on
  these structures (strings, booleans, an \<^verbatim>\<open>int32\<close>, slices of structures and maps with
  no entries), so it is total here, and the branch of the program that handles its error
  is kept.\<close>

datatype json_body = OriginPoolBody OriginPool | DeleteBody Delete

definition json_Marshal :: "json_body \<Rightarrow> string + json_body" where
  "json_Marshal v = Inr v"

record Request =
  Method :: string
  URL :: string
  Header :: "(string \<times> string) list"
  Body :: "json_body option"

record Response =
  StatusCode :: int
  Status :: string

text \<open>\<open>Timeout\<close> is in nanoseconds, as a \<^verbatim>\<open>time.Duration\<close>; zero means no timeout.\<close>

record Client =
  Timeout :: nat

definition Second :: nat where
  "Second = 1000000000"

definition DefaultClient :: Client where
  "DefaultClient = \<lparr>Timeout = 0\<rparr>"

text \<open>Everything the process asks of its surroundings: its environment variables, the
  cluster API, the URL parser behind \<^verbatim>\<open>http.NewRequest\<close> and the remote API. An error is
  its message. The answers of the cluster and of the remote API may change from one call
  to the next, so they depend on the number of calls made before (the \<open>clock\<close> of the
  trace below).\<close>

record world =
  Getenv :: "string \<Rightarrow> string"
  Pods_List :: "nat \<Rightarrow> string \<Rightarrow> (string \<rightharpoonup> string) \<Rightarrow> string + Pod list"
  Nodes_Get :: "nat \<Rightarrow> string \<Rightarrow> string + Node"
  NewRequest_error :: "string \<Rightarrow> string \<Rightarrow> string option"
  Client_Do :: "nat \<Rightarrow> Client \<Rightarrow> Request \<Rightarrow> string + Response"

text \<open>What one handler leaves behind: the calls it has made so far, the lines it has
  logged and the requests it has handed to an HTTP client, in order.\<close>

record trace =
  clock :: nat
  logs :: "string list"
  sent :: "Request list"

definition log_Printf :: "string \<Rightarrow> trace \<Rightarrow> trace" where
  "log_Printf line t = t\<lparr>logs := logs t @ [line]\<rparr>"

definition tick :: "trace \<Rightarrow> trace" where
  "tick t = t\<lparr>clock := Suc (clock t)\<rparr>"

definition http_NewRequest :: "world \<Rightarrow> string \<Rightarrow> string \<Rightarrow> json_body option \<Rightarrow> string + Request" where
  "http_NewRequest w method url body =
     (case NewRequest_error w method url of
        Some err \<Rightarrow> Inl err
      | None \<Rightarrow> Inr \<lparr>Method = method, URL = url, Header = [], Body = body\<rparr>)"

definition Header_Set :: "string \<Rightarrow> string \<Rightarrow> Request \<Rightarrow> Request" where
  "Header_Set key val req = req\<lparr>Header := AList.update key val (Header req)\<rparr>"

definition client_Do :: "world \<Rightarrow> Client \<Rightarrow> Request \<Rightarrow> trace \<Rightarrow> (string + Response) \<times> trace" where
  "client_Do w client req t =
     (Client_Do w (clock t) client req, tick (t\<lparr>sent := sent t @ [req]\<rparr>))"

text \<open>\<^verbatim>\<open>%d\<close> of a status code.\<close>

fun decimal :: "nat \<Rightarrow> string" where
  "decimal n = (if n < 10 then [char_of (0x30 + n)]
                else decimal (n div 10) @ [char_of (0x30 + n mod 10)])"

declare decimal.simps [simp del]

definition Sprintf_d :: "int \<Rightarrow> string" where
  "Sprintf_d i = (if i < 0 then CHR ''-'' # decimal (nat (- i)) else decimal (nat i))"

subsection \<open>Package-level configuration\<close>

definition k8s_namespace :: "world \<Rightarrow> string" where
  "k8s_namespace w = Getenv w ''KUBE_NAMESPACE''"

definition xc_namespace :: "world \<Rightarrow> string" where
  "xc_namespace w = Getenv w ''XC_NAMESPACE''"

definition xc_token :: "world \<Rightarrow> string" where
  "xc_token w = Getenv w ''XC_TOKEN''"

definition xc_sitename :: "world \<Rightarrow> string" where
  "xc_sitename w = Getenv w ''XC_SITENAME''"

definition xc_siteinterface :: "world \<Rightarrow> string" where
  "xc_siteinterface w = Getenv w ''XC_SITEINTERFACE''"

definition api_domain :: "world \<Rightarrow> string" where
  "api_domain w = Getenv w ''API_DOMAIN''"

section \<open>The endpoint resolver\<close>

text \<open>The inner loop of \<^verbatim>\<open>getNodeIPsForService\<close>: the address of the first entry of type
  \<^verbatim>\<open>NodeInternalIP\<close>, at which the loop appends, marks the node and breaks.\<close>

fun first_InternalIP :: "NodeAddress list \<Rightarrow> string option" where
  "first_InternalIP [] = None"
| "first_InternalIP (addr # addrs) =
     (if Address_Type addr = NodeInternalIP then Some (Address addr) else first_InternalIP addrs)"

text \<open>The loop over \<^verbatim>\<open>pods.Items\<close>, with the slice \<open>nodeIPs\<close> and the map \<open>nodeNames\<close>
  it updates. A node is marked only when an address of it has been appended, so a node
  whose lookup failed, or that had no internal address, is looked up again for the next
  pod on it.\<close>

fun pods_loop :: "world \<Rightarrow> Pod list \<Rightarrow> string list \<Rightarrow> (string \<rightharpoonup> bool) \<Rightarrow> trace \<Rightarrow> string list \<times> trace" where
  "pods_loop w [] nodeIPs nodeNames t = (nodeIPs, t)"
| "pods_loop w (pod # pods) nodeIPs nodeNames t =
     (if nodeNames (NodeName pod) = None then
        (case Nodes_Get w (clock t) (NodeName pod) of
           Inl err \<Rightarrow>
             pods_loop w pods nodeIPs nodeNames
               (log_Printf (''Error fetching node '' @ NodeName pod @ '' for pod '' @ Pod_Name pod
                              @ '': '' @ err) (tick t))
         | Inr node \<Rightarrow>
             (case first_InternalIP (Addresses node) of
                Some address \<Rightarrow>
                  pods_loop w pods (nodeIPs @ [address]) (nodeNames(NodeName pod \<mapsto> True)) (tick t)
              | None \<Rightarrow> pods_loop w pods nodeIPs nodeNames (tick t)))
      else pods_loop w pods nodeIPs nodeNames t)"

definition getNodeIPsForService :: "world \<Rightarrow> trace \<Rightarrow> Service \<Rightarrow> (string + string list) \<times> trace" where
  "getNodeIPsForService w t service =
     (case Pods_List w (clock t) (Namespace service) (Selector service) of
        Inl err \<Rightarrow>
          (Inl (''error fetching pods for service '' @ Name service @ '': '' @ err), tick t)
      | Inr pods \<Rightarrow>
          (case pods_loop w pods [] Map.empty (tick t) of (nodeIPs, t') \<Rightarrow> (Inr nodeIPs, t')))"

section \<open>The remote resource client and the reconciler\<close>

definition checkOriginPoolExists :: "unicode_tables \<Rightarrow> world \<Rightarrow> trace \<Rightarrow> Service \<Rightarrow> (string + bool) \<times> trace" where
  "checkOriginPoolExists U w t service =
     (let formattedServiceName = formatServiceName U (Name service);
          url = api_domain w @ ''/api/config/namespaces/'' @ xc_namespace w @ ''/origin_pools/''
                  @ formattedServiceName
      in case http_NewRequest w ''GET'' url None of
           Inl err \<Rightarrow> (Inl (''error creating request: '' @ err), t)
         | Inr req \<Rightarrow>
             (let req = Header_Set ''Authorization'' (''APIToken '' @ xc_token w) req;
                  client = \<lparr>Timeout = 10 * Second\<rparr>
              in case client_Do w client req t of
                   (Inl err, t') \<Rightarrow> (Inl (''error sending request to API: '' @ err), t')
                 | (Inr resp, t') \<Rightarrow>
                     if StatusCode resp = 200 then (Inr True, t')
                     else if StatusCode resp = 404 then (Inr False, t')
                     else (Inl (''unexpected HTTP status: '' @ Status resp), t')))"

definition createOriginPool :: "unicode_tables \<Rightarrow> world \<Rightarrow> trace \<Rightarrow> Service \<Rightarrow> trace" where
  "createOriginPool U w t service =
     (let formattedServiceName = formatServiceName U (Name service)
      in case getNodeIPsForService w t service of
           (Inl err, t) \<Rightarrow> log_Printf (''Error fetching node IPs: '' @ err) t
         | (Inr nodeIPs, t) \<Rightarrow>
             if length nodeIPs = 0 then
               log_Printf (''No nodes found for service '' @ Name service
                             @ '', skipping origin pool creation'') t
             else if length (Ports service) > 0 \<and> NodePort (Ports service ! 0) \<noteq> 0 then
               (let nodePort = NodePort (Ports service ! 0);
                    apiDomain = Getenv w ''API_DOMAIN'';
                    xcNamespace = Getenv w ''XC_NAMESPACE'';
                    url = apiDomain @ ''/api/config/namespaces/'' @ xcNamespace @ ''/origin_pools'';
                    originServers =
                      map (\<lambda>ip. \<lparr>PrivateIP =
                                    \<lparr>IP = ip,
                                     SiteLocator =
                                       \<lparr>Site = \<lparr>Site_Namespace = ''system'',
                                                 Site_Name = xc_sitename w,
                                                 Kind = ''site''\<rparr>\<rparr>,
                                     InsideNetwork = Some [],
                                     OutsideNetwork = None\<rparr>\<rparr>) nodeIPs;
                    payload =
                      \<lparr>Metadata = \<lparr>Metadata_Name = formattedServiceName,
                                    Description = ''Created by OriginSync'',
                                    Disable = False\<rparr>,
                       Spec = \<lparr>OriginServers = originServers,
                                NoTLS = Some [],
                                Port = nodePort,
                                SameAsEndpointPort = Some [],
                                LoadbalancerAlgorithm = ''LB_OVERRIDE'',
                                EndpointSelection = ''LOCAL_PREFERRED''\<rparr>\<rparr>
                in case json_Marshal (OriginPoolBody payload) of
                     Inl err \<Rightarrow> log_Printf (''Error marshalling payload: '' @ err) t
                   | Inr jsonData \<Rightarrow>
                       (let xcToken = Getenv w ''XC_TOKEN''
                        in case http_NewRequest w ''POST'' url (Some jsonData) of
                             Inl err \<Rightarrow> log_Printf (''Error creating request: '' @ err) t
                           | Inr req \<Rightarrow>
                               (let req = Header_Set ''Content-Type'' ''application/json'' req;
                                    req = Header_Set ''Authorization'' (''APIToken '' @ xcToken) req
                                in case client_Do w DefaultClient req t of
                                     (Inl err, t) \<Rightarrow>
                                       log_Printf (''Error sending request to API: '' @ err) t
                                   | (Inr resp, t) \<Rightarrow>
                                       if StatusCode resp \<noteq> 200 then
                                         log_Printf (''Failed to create/update origin pool: ''
                                                       @ Status resp) t
                                       else
                                         log_Printf ''Successfully created/updated origin pool'' t)))
             else
               log_Printf (''No NodePort found for service '' @ Name service
                             @ '', skipping origin pool creation'') t)"

definition updateOriginPool :: "unicode_tables \<Rightarrow> world \<Rightarrow> trace \<Rightarrow> Service \<Rightarrow> trace" where
  "updateOriginPool U w t service =
     (let formattedServiceName = formatServiceName U (Name service)
      in case getNodeIPsForService w t service of
           (Inl err, t) \<Rightarrow> log_Printf (''Error fetching node IPs: '' @ err) t
         | (Inr nodeIPs, t) \<Rightarrow>
             if length nodeIPs = 0 then
               log_Printf (''No nodes found for service '' @ Name service
                             @ '', skipping origin pool creation'') t
             else if length (Ports service) > 0 \<and> NodePort (Ports service ! 0) \<noteq> 0 then
               (let nodePort = NodePort (Ports service ! 0);
                    apiDomain = Getenv w ''API_DOMAIN'';
                    xcNamespace = Getenv w ''XC_NAMESPACE'';
                    url = apiDomain @ ''/api/config/namespaces/'' @ xcNamespace @ ''/origin_pools/''
                            @ formattedServiceName;
                    originServers =
                      map (\<lambda>ip. \<lparr>PrivateIP =
                                    \<lparr>IP = ip,
                                     SiteLocator =
                                       \<lparr>Site = \<lparr>Site_Namespace = ''system'',
                                                 Site_Name = xc_sitename w,
                                                 Kind = ''site''\<rparr>\<rparr>,
                                     InsideNetwork = Some [],
                                     OutsideNetwork = None\<rparr>\<rparr>) nodeIPs;
                    payload =
                      \<lparr>Metadata = \<lparr>Metadata_Name = formattedServiceName,
                                    Description = ''Created by OriginSync'',
                                    Disable = False\<rparr>,
                       Spec = \<lparr>OriginServers = originServers,
                                NoTLS = Some [],
                                Port = nodePort,
                                SameAsEndpointPort = Some [],
                                LoadbalancerAlgorithm = ''LB_OVERRIDE'',
                                EndpointSelection = ''LOCAL_PREFERRED''\<rparr>\<rparr>
                in case json_Marshal (OriginPoolBody payload) of
                     Inl err \<Rightarrow> log_Printf (''Error marshalling payload: '' @ err) t
                   | Inr jsonData \<Rightarrow>
                       (let xcToken = Getenv w ''XC_TOKEN''
                        in case http_NewRequest w ''PUT'' url (Some jsonData) of
                             Inl err \<Rightarrow> log_Printf (''Error creating request: '' @ err) t
                           | Inr req \<Rightarrow>
                               (let req = Header_Set ''Content-Type'' ''application/json'' req;
                                    req = Header_Set ''Authorization'' (''APIToken '' @ xcToken) req
                                in case client_Do w DefaultClient req t of
                                     (Inl err, t) \<Rightarrow>
                                       log_Printf (''Error sending request to API: '' @ err) t
                                   | (Inr resp, t) \<Rightarrow>
                                       if StatusCode resp \<noteq> 200 then
                                         log_Printf (''Failed to create/update origin pool: ''
                                                       @ Status resp) t
                                       else
                                         log_Printf ''Successfully created/updated origin pool'' t)))
             else
               log_Printf (''No NodePort found for service '' @ Name service
                             @ '', skipping origin pool creation'') t)"

definition manageOriginPool :: "unicode_tables \<Rightarrow> world \<Rightarrow> trace \<Rightarrow> Service \<Rightarrow> trace" where
  "manageOriginPool U w t service =
     (case checkOriginPoolExists U w t service of
        (Inl err, t) \<Rightarrow> log_Printf (''Error checking if origin pool exists: '' @ err) t
      | (Inr exists, t) \<Rightarrow>
          if exists then
            updateOriginPool U w
              (log_Printf (''Origin pool already exists, updating: '' @ Name service) t) service
          else
            createOriginPool U w
              (log_Printf (''Creating new origin pool: '' @ Name service) t) service)"

definition deleteOriginPool :: "unicode_tables \<Rightarrow> world \<Rightarrow> trace \<Rightarrow> Service \<Rightarrow> trace" where
  "deleteOriginPool U w t service =
     (let formattedServiceName = formatServiceName U (Name service);
          apiDomain = Getenv w ''API_DOMAIN'';
          xcNamespace = Getenv w ''XC_NAMESPACE'';
          url = apiDomain @ ''/api/config/namespaces/'' @ xcNamespace @ ''/origin_pools/''
                  @ formattedServiceName;
          deletePayload = \<lparr>FailIfReferred = False,
                           Delete_Name = formattedServiceName,
                           Delete_Namespace = xcNamespace\<rparr>
      in case json_Marshal (DeleteBody deletePayload) of
           Inl err \<Rightarrow> log_Printf (''Error marshalling delete payload: '' @ err) t
         | Inr jsonData \<Rightarrow>
             (case http_NewRequest w ''DELETE'' url (Some jsonData) of
                Inl err \<Rightarrow> log_Printf (''Error creating DELETE request: '' @ err) t
              | Inr req \<Rightarrow>
                  (let req = Header_Set ''Content-Type'' ''application/json'' req;
                       xcToken = Getenv w ''XC_TOKEN'';
                       req = Header_Set ''Authorization'' (''APIToken '' @ xcToken) req;
                       client = \<lparr>Timeout = 10 * Second\<rparr>
                   in case client_Do w client req t of
                        (Inl err, t) \<Rightarrow> log_Printf (''Error sending DELETE request: '' @ err) t
                      | (Inr resp, t) \<Rightarrow>
                          if StatusCode resp \<noteq> 200 then
                            log_Printf (''Failed to delete origin pool: '' @ Status resp
                                          @ '', Status Code: '' @ Sprintf_d (StatusCode resp)) t
                          else log_Printf ''Successfully deleted origin pool'' t)))"

section \<open>Event handlers\<close>

text \<open>The informer hands each handler an \<^verbatim>\<open>interface{}\<close>; the type assertion
  \<^verbatim>\<open>obj.(*corev1.Service)\<close> succeeds on a service only. Each handler starts the
  reconciliation in a goroutine of its own; the model runs that one goroutine.\<close>

datatype object = ServiceObject Service | OtherObject

datatype event = OnAdd object | OnUpdate object object | OnDelete object

fun handle_event :: "unicode_tables \<Rightarrow> world \<Rightarrow> trace \<Rightarrow> event \<Rightarrow> trace" where
  "handle_event U w t (OnAdd obj) =
     (case obj of
        ServiceObject service \<Rightarrow>
          if Type service = ServiceTypeNodePort then manageOriginPool U w t service else t
      | OtherObject \<Rightarrow> t)"
| "handle_event U w t (OnUpdate oldObj newObj) =
     (case (oldObj, newObj) of
        (ServiceObject oldService, ServiceObject newService) \<Rightarrow>
          if Type newService = ServiceTypeNodePort then manageOriginPool U w t newService else t
      | _ \<Rightarrow> t)"
| "handle_event U w t (OnDelete obj) =
     (case obj of
        ServiceObject service \<Rightarrow>
          if Type service = ServiceTypeNodePort then deleteOriginPool U w t service else t
      | OtherObject \<Rightarrow> t)"

section \<open>Example data\<close>

text \<open>Concrete inputs at which the theorems below are instantiated. \<open>basic_tables\<close> has
  no entry above Latin-1; the names of the examples are ASCII and never reach the tables.
  In \<open>example_world\<close> the cluster lists the given pods for every selector, knows the nodes
  \<open>A\<close> and \<open>B\<close>, every URL parses, and the remote API answers a \<^verbatim>\<open>GET\<close> with the given
  response and every other request with \<^verbatim>\<open>200 OK\<close>.\<close>

definition basic_tables :: unicode_tables where
  "basic_tables = \<lparr>Letter = (\<lambda>r. False), Digit = (\<lambda>r. False), LowerCase = (\<lambda>r. r)\<rparr>"

definition example_env :: "string \<Rightarrow> string" where
  "example_env name =
     (if name = ''API_DOMAIN'' then ''https://api.example.com''
      else if name = ''XC_NAMESPACE'' then ''prod''
      else if name = ''XC_TOKEN'' then ''secret''
      else if name = ''XC_SITENAME'' then ''site1''
      else if name = ''XC_SITEINTERFACE'' then ''Outside''
      else [])"

definition example_node :: "string \<Rightarrow> string + Node" where
  "example_node name =
     (if name = ''A'' then
        Inr \<lparr>Addresses = [\<lparr>Address_Type = ''Hostname'', Address = ''node-a''\<rparr>,
                          \<lparr>Address_Type = ''InternalIP'', Address = ''10.0.0.1''\<rparr>]\<rparr>
      else if name = ''B'' then
        Inr \<lparr>Addresses = [\<lparr>Address_Type = ''InternalIP'', Address = ''10.0.0.2''\<rparr>]\<rparr>
      else Inl ''node not found'')"

definition example_world :: "Pod list \<Rightarrow> Response \<Rightarrow> world" where
  "example_world pods found =
     \<lparr>Getenv = example_env,
      Pods_List = (\<lambda>k ns sel. Inr pods),
      Nodes_Get = (\<lambda>k. example_node),
      NewRequest_error = (\<lambda>method url. None),
      Client_Do = (\<lambda>k client req.
        Inr (if Method req = ''GET'' then found else \<lparr>StatusCode = 200, Status = ''200 OK''\<rparr>))\<rparr>"

definition pods_AAB :: "Pod list" where
  "pods_AAB = [\<lparr>Pod_Name = ''web-1'', NodeName = ''A''\<rparr>,
               \<lparr>Pod_Name = ''web-2'', NodeName = ''A''\<rparr>,
               \<lparr>Pod_Name = ''web-3'', NodeName = ''B''\<rparr>]"

definition web_service :: Service where
  "web_service = \<lparr>Name = ''web'', Namespace = ''default'', Selector = [''app'' \<mapsto> ''web''],
                   Ports = [\<lparr>NodePort = 30080\<rparr>], Type = ''NodePort''\<rparr>"

definition start :: trace where
  "start = \<lparr>clock = 0, logs = [], sent = []\<rparr>"

definition OK_200 :: Response where
  "OK_200 = \<lparr>StatusCode = 200, Status = ''200 OK''\<rparr>"

definition NotFound_404 :: Response where
  "NotFound_404 = \<lparr>StatusCode = 404, Status = ''404 Not Found''\<rparr>"

definition no_port_service :: Service where
  "no_port_service = \<lparr>Name = ''web'', Namespace = ''default'', Selector = [''app'' \<mapsto> ''web''],
                       Ports = [], Type = ''NodePort''\<rparr>"

definition ServerError_500 :: Response where
  "ServerError_500 = \<lparr>StatusCode = 500, Status = ''500 Internal Server Error''\<rparr>"

definition example_payload :: OriginPool where
  "example_payload =
     \<lparr>Metadata = \<lparr>Metadata_Name = ''web'', Description = ''Created by OriginSync'',
                   Disable = False\<rparr>,
      Spec = \<lparr>OriginServers =
                 [\<lparr>PrivateIP =
                     \<lparr>IP = ''10.0.0.1'',
                      SiteLocator = \<lparr>Site = \<lparr>Site_Namespace = ''system'', Site_Name = ''site1'',
                                               Kind = ''site''\<rparr>\<rparr>,
                      InsideNetwork = Some [], OutsideNetwork = None\<rparr>\<rparr>,
                  \<lparr>PrivateIP =
                     \<lparr>IP = ''10.0.0.2'',
                      SiteLocator = \<lparr>Site = \<lparr>Site_Namespace = ''system'', Site_Name = ''site1'',
                                               Kind = ''site''\<rparr>\<rparr>,
                      InsideNetwork = Some [], OutsideNetwork = None\<rparr>\<rparr>],
               NoTLS = Some [], Port = 30080, SameAsEndpointPort = Some [],
               LoadbalancerAlgorithm = ''LB_OVERRIDE'',
               EndpointSelection = ''LOCAL_PREFERRED''\<rparr>\<rparr>"

text \<open>\<open>looked_up w (node, address)\<close>: some lookup of the node returns it with that
  address as its first internal address.\<close>

definition looked_up :: "world \<Rightarrow> string \<times> string \<Rightarrow> bool" where
  "looked_up w na =
     (\<exists>k node. Nodes_Get w k (fst na) = Inr node
                \<and> first_InternalIP (Addresses node) = Some (snd na))"

section \<open>Evaluating the canonicalizer on ASCII names\<close>

lemma char_of_nat_eval:
  "char_of (n :: nat) =
     Char (odd n) (odd (n div 2)) (odd (n div 4)) (odd (n div 8))
       (odd (n div 16)) (odd (n div 32)) (odd (n div 64)) (odd (n div 128))"
  by (simp add: char_of_def bit_iff_odd)

lemma range_string_Nil: "range_string i [] = []"
  by (simp add: range_string.simps)

lemma range_string_ascii:
  "(of_char c :: nat) < 0x80 \<Longrightarrow>
     range_string i (c # s) = (i, of_char c) # range_string (Suc i) s"
  by (subst range_string.simps) (simp add: DecodeRuneInString_def DecodeRuneInBytes_def Let_def)

lemma EncodeRune_ascii: "r \<le> 0x7F \<Longrightarrow> EncodeRune r = [char_of r]"
  by (simp add: EncodeRune_def)

lemmas formatServiceName_eval =
  formatServiceName_def strings_ReplaceAll_def strings_ToLower_def range_string_Nil
  range_string_ascii EncodeRune_ascii unicode_IsLetter_def unicode_IsDigit_def
  latin1_letter_def MaxLatin1_def MaxASCII_def Let_def char_of_nat_eval

text \<open>The two examples of the specification.\<close>

lemma formatServiceName_example_trailing_dot:
  "formatServiceName U ''My.Service.Name.'' = ''my-service-name''"
  by (simp add: formatServiceName_eval)

lemma formatServiceName_example_leading_digits:
  "formatServiceName U ''123-abc'' = ''abc''"
  by (simp add: formatServiceName_eval)

section \<open>The canonicalizer on ASCII names\<close>

text \<open>On a name of ASCII bytes every rune is one byte, and \<open>formatServiceName\<close> has a
  closed form: replace the dots, lower the bytes, drop the bytes before the first letter,
  keep the valid bytes, and drop the last byte kept when the last byte before filtering is
  a hyphen. Its output then consists of a-z, 0-9 and hyphens and is empty or starts with
  a letter, and a canonical name is returned as it is.\<close>

lemma of_char_hyphen: "((of_char c :: nat) = 0x2D) = (c = CHR ''-'')"
proof
  assume "(of_char c :: nat) = 0x2D"
  then have "(char_of (of_char c :: nat) :: char) = char_of (0x2D :: nat)" by (simp only:)
  then have "c = char_of (0x2D :: nat)" by (simp only: char_of_char)
  then show "c = CHR ''-''" by (simp add: char_of_nat_eval)
next
  assume "c = CHR ''-''" then show "(of_char c :: nat) = 0x2D" by simp
qed

lemma valid_byte_hyphen: "valid_byte U (CHR ''-'')"
  by (simp add: valid_byte_def)

lemma EncodeRune_of_char: "(of_char c :: nat) < 0x80 \<Longrightarrow> EncodeRune (of_char c) = [c]"
  by (simp add: EncodeRune_ascii)

lemma EncodeRune_hyphen: "EncodeRune 0x2D = ''-''"
  by (simp add: EncodeRune_ascii char_of_nat_eval)

lemma keep_valid_step_ascii:
  assumes "(of_char c :: nat) < 0x80"
  shows "keep_valid U n ((i, of_char c) # rest) temp
           = keep_valid U n rest
               (if int i = int n - 1 \<and> c = CHR ''-'' then temp
                else if valid_byte U c then temp @ [c] else temp)"
  using assms
  by (auto simp: valid_byte_def of_char_hyphen Let_def EncodeRune_of_char EncodeRune_hyphen)

lemma filter_valid_last_hyphen:
  assumes "s \<noteq> []" and "last s = CHR ''-''"
  shows "filter (valid_byte U) s \<noteq> []"
proof -
  from assms have "CHR ''-'' \<in> set s"
    using last_in_set [of s] by simp
  then have "\<exists>x\<in>set s. valid_byte U x"
    using valid_byte_hyphen by (rule bexI [rotated])
  then show ?thesis
    by (simp add: filter_empty_conv)
qed

lemma keep_valid_ascii:
  assumes "is_ascii s" and "i + length s = n"
  shows "keep_valid U n (range_string i s) temp
           = (if s \<noteq> [] \<and> last s = CHR ''-'' then temp @ butlast (filter (valid_byte U) s)
              else temp @ filter (valid_byte U) s)"
  using assms
proof (induction s arbitrary: i temp)
  case Nil
  then show ?case by (simp add: range_string_Nil)
next
  case (Cons c s)
  from Cons.prems have c: "(of_char c :: nat) < 0x80" and s: "is_ascii s"
    and len: "Suc i + length s = n"
    by (simp_all add: is_ascii_def)
  note IH = Cons.IH [OF s len]
  note step = keep_valid_step_ascii [OF c, of U n i]
  show ?case
  proof (cases "s = []")
    case True
    with len have "int i = int n - 1" by simp
    with True show ?thesis
      using c by (simp add: range_string_ascii range_string_Nil step valid_byte_hyphen
                    del: keep_valid.simps(2))
  next
    case False
    with len have last: "int i \<noteq> int n - 1" by (cases s) auto
    show ?thesis
    proof (cases "last s = CHR ''-''")
      case True
      from filter_valid_last_hyphen [OF False True, of U] False True last show ?thesis
        using c by (simp add: range_string_ascii step IH butlast_append
                      del: keep_valid.simps(2))
    next
      case no: False
      with False last show ?thesis
        using c by (simp add: range_string_ascii step IH del: keep_valid.simps(2))
    qed
  qed
qed

lemma of_char_lower_byte:
  "(of_char (lower_byte c) :: nat)
     = (if 0x41 \<le> (of_char c :: nat) \<and> (of_char c :: nat) \<le> 0x5A then of_char c + 0x20
        else of_char c)"
  by (simp add: lower_byte_def of_char_of)

lemma strings_ToLower_ascii:
  "is_ascii s \<Longrightarrow> strings_ToLower U s = map lower_byte s"
  by (simp add: strings_ToLower_def is_ascii_def lower_byte_def)

lemma strip_leading_dropWhile:
  "strip_leading U s = dropWhile (\<lambda>c. \<not> unicode_IsLetter U (of_char c)) s"
  by (induction s) simp_all

lemma formatServiceName_ascii:
  assumes "is_ascii s"
  shows "formatServiceName U s
           = (let s3 = dropWhile (\<lambda>c. \<not> unicode_IsLetter U (of_char c))
                         (map lower_byte (strings_ReplaceAll s (CHR ''.'') (CHR ''-'')))
              in if s3 \<noteq> [] \<and> last s3 = CHR ''-'' then butlast (filter (valid_byte U) s3)
                 else filter (valid_byte U) s3)"
proof -
  let ?s1 = "strings_ReplaceAll s (CHR ''.'') (CHR ''-'')"
  let ?s3 = "dropWhile (\<lambda>c. \<not> unicode_IsLetter U (of_char c)) (map lower_byte ?s1)"
  have a1: "is_ascii ?s1"
    using assms by (auto simp: is_ascii_def strings_ReplaceAll_def list_all_iff)
  have a2: "is_ascii (map lower_byte ?s1)"
    using a1 by (auto simp: is_ascii_def list_all_iff of_char_lower_byte)
  have a3: "is_ascii ?s3"
    using a2 set_dropWhileD [of _ "\<lambda>c. \<not> unicode_IsLetter U (of_char c)" "map lower_byte ?s1"]
    unfolding is_ascii_def list_all_iff by blast
  show ?thesis
    using keep_valid_ascii [OF a3, of 0 "length ?s3" U "[]"]
    by (simp add: formatServiceName_def strings_ToLower_ascii [OF a1] strip_leading_dropWhile Let_def)
qed

lemma letter_lowered:
  assumes "(of_char c :: nat) < 0x80" and "\<not> (0x41 \<le> (of_char c :: nat) \<and> (of_char c :: nat) \<le> 0x5A)"
    and "unicode_IsLetter U (of_char c)"
  shows "lower_letter c"
  using assms by (auto simp: unicode_IsLetter_def latin1_letter_def MaxLatin1_def lower_letter_def)

lemma valid_lowered:
  assumes "(of_char c :: nat) < 0x80" and "\<not> (0x41 \<le> (of_char c :: nat) \<and> (of_char c :: nat) \<le> 0x5A)"
    and "valid_byte U c"
  shows "name_char c"
  using assms
  by (auto simp: valid_byte_def unicode_IsLetter_def unicode_IsDigit_def latin1_letter_def
        MaxLatin1_def lower_letter_def name_char_def of_char_hyphen)

lemma name_char_valid: "name_char c \<Longrightarrow> valid_byte U c"
  by (auto simp: valid_byte_def unicode_IsLetter_def unicode_IsDigit_def latin1_letter_def
        MaxLatin1_def lower_letter_def name_char_def)

lemma lower_letter_IsLetter: "lower_letter c \<Longrightarrow> unicode_IsLetter U (of_char c)"
  by (auto simp: unicode_IsLetter_def latin1_letter_def MaxLatin1_def lower_letter_def)

lemma name_char_ascii: "name_char c \<Longrightarrow> (of_char c :: nat) < 0x80"
  by (auto simp: name_char_def lower_letter_def)

lemma name_char_lower_byte: "name_char c \<Longrightarrow> lower_byte c = c"
  by (auto simp: name_char_def lower_letter_def lower_byte_def)

lemma name_char_not_dot: "name_char c \<Longrightarrow> c \<noteq> CHR ''.''"
  by (auto simp: name_char_def lower_letter_def)

lemma lowered_set:
  assumes "is_ascii s" and "c \<in> set (map lower_byte (strings_ReplaceAll s (CHR ''.'') (CHR ''-'')))"
  shows "(of_char c :: nat) < 0x80 \<and> \<not> (0x41 \<le> (of_char c :: nat) \<and> (of_char c :: nat) \<le> 0x5A)"
proof -
  from assms(2) obtain d where d: "d \<in> set s" and c: "c = lower_byte (if d = CHR ''.'' then CHR ''-'' else d)"
    by (auto simp: strings_ReplaceAll_def)
  from assms(1) d have "(of_char d :: nat) < 0x80"
    by (simp add: is_ascii_def list_all_iff)
  then show ?thesis
    unfolding c by (auto simp: of_char_lower_byte)
qed

lemma formatServiceName_ascii_charset:
  assumes "is_ascii s"
  shows "list_all name_char (formatServiceName U s)
         \<and> (formatServiceName U s = [] \<or> lower_letter (hd (formatServiceName U s)))"
proof -
  let ?P = "\<lambda>c. \<not> unicode_IsLetter U (of_char c)"
  let ?s2 = "map lower_byte (strings_ReplaceAll s (CHR ''.'') (CHR ''-''))"
  let ?s3 = "dropWhile ?P ?s2"
  let ?f = "filter (valid_byte U) ?s3"
  let ?r = "if ?s3 \<noteq> [] \<and> last ?s3 = CHR ''-'' then butlast ?f else ?f"
  have r: "formatServiceName U s = ?r"
    by (simp add: formatServiceName_ascii [OF assms] Let_def)
  have low: "(of_char c :: nat) < 0x80 \<and> \<not> (0x41 \<le> (of_char c :: nat) \<and> (of_char c :: nat) \<le> 0x5A)"
    if "c \<in> set ?s3" for c
    using lowered_set [OF assms, of c] set_dropWhileD [OF that] by blast
  have f: "name_char c" if "c \<in> set ?f" for c
    using that low [of c] valid_lowered [of c U] by auto
  have "name_char c" if "c \<in> set ?r" for c
    using that f by (auto split: if_splits dest: in_set_butlastD)
  then have charset: "list_all name_char ?r"
    unfolding list_all_iff by blast
  have head: "?r = [] \<or> lower_letter (hd ?r)"
  proof (cases ?s3)
    case Nil
    show ?thesis unfolding Nil by simp
  next
    case (Cons h t)
    have "\<not> ?P (hd ?s3)"
      using Cons hd_dropWhile [of ?P ?s2] by simp
    with Cons have letter: "unicode_IsLetter U (of_char h)" by simp
    have "h \<in> set ?s3" using Cons by simp
    from low [OF this] letter have h: "lower_letter h"
      using letter_lowered by blast
    then have hv: "valid_byte U h"
      by (simp add: valid_byte_def letter)
    have hne: "h \<noteq> CHR ''-''"
      using h by (auto simp: lower_letter_def)
    show ?thesis
    proof (cases "last ?s3 = CHR ''-''")
      case False
      with Cons hv h show ?thesis by simp
    next
      case True
      with Cons hne have t: "t \<noteq> []" "last t = CHR ''-''"
        by (auto split: if_splits)
      from filter_valid_last_hyphen [OF t, of U] Cons hv h True show ?thesis
        by simp
    qed
  qed
  from charset head show ?thesis
    unfolding r by blast
qed

lemma canonical_ascii: "canonical s \<Longrightarrow> is_ascii s"
  by (auto simp: canonical_def is_ascii_def list_all_iff name_char_ascii)

lemma formatServiceName_canonical:
  assumes "canonical s"
  shows "formatServiceName U s = s"
proof -
  from assms have ne: "s \<noteq> []" and hd: "lower_letter (hd s)"
    and chars: "\<And>c. c \<in> set s \<Longrightarrow> name_char c" and last: "last s \<noteq> CHR ''-''"
    by (auto simp: canonical_def list_all_iff)
  have s1: "strings_ReplaceAll s (CHR ''.'') (CHR ''-'') = s"
    unfolding strings_ReplaceAll_def using chars name_char_not_dot
    by (intro map_idI) auto
  have s2: "map lower_byte s = s"
    using chars name_char_lower_byte by (intro map_idI) auto
  have s3: "dropWhile (\<lambda>c. \<not> unicode_IsLetter U (of_char c)) s = s"
    using hd lower_letter_IsLetter [of "hd s" U] by (simp add: dropWhile_eq_self_iff)
  have f: "filter (valid_byte U) s = s"
    using chars name_char_valid by (simp add: filter_id_conv)
  show ?thesis
    using last by (simp add: formatServiceName_ascii [OF canonical_ascii [OF assms]] s1 s2 s3 f)
qed

section \<open>Claims about the canonicalizer\<close>

text \<open>
  C2. The claim: every output of \<open>formatServiceName\<close> consists of characters of
  \<open>[a-z0-9-]\<close>, is empty or begins with a letter, and does not end with a hyphen. The
  second loop removes a hyphen only when it is the last byte of the string it ranges
  over, and then only that one: on the name \<open>a--\<close> the hyphen before it stays, and the
  output \<open>a-\<close> ends with a hyphen, whatever the Unicode tables are. (The other two parts
  hold on every ASCII name, by \<open>formatServiceName_ascii_charset\<close>.)
\<close>

theorem formatServiceName_keeps_trailing_hyphen:
  "formatServiceName U ''a--'' = ''a-'' \<and> last (formatServiceName U ''a--'') = CHR ''-''"
  by (simp add: formatServiceName_eval)

text \<open>
  C3. The claim: \<open>formatServiceName\<close> is idempotent. On the name \<open>a--\<close> the first
  application returns \<open>a-\<close> and the second returns \<open>a\<close>: each application removes one
  more trailing hyphen, so applying it twice differs from applying it once.
\<close>

theorem formatServiceName_twice_differs:
  "formatServiceName U ''a--'' = ''a-'' \<and>
   formatServiceName U (formatServiceName U ''a--'') = ''a'' \<and>
   formatServiceName U (formatServiceName U ''a--'') \<noteq> formatServiceName U ''a--''"
  by (simp add: formatServiceName_eval)

section \<open>The resolver: what the loop over the pods maintains\<close>

lemma sent_log_Printf: "sent (log_Printf line t) = sent t"
  by (simp add: log_Printf_def)

lemma sent_tick: "sent (tick t) = sent t"
  by (simp add: tick_def)

lemma pods_loop_sent: "sent (snd (pods_loop w pods nodeIPs nodeNames t)) = sent t"
  by (induction pods arbitrary: nodeIPs nodeNames t)
     (auto simp: sent_log_Printf sent_tick split: sum.splits option.splits)

lemma getNodeIPsForService_unfold:
  "getNodeIPsForService w t service =
     (case Pods_List w (clock t) (Namespace service) (Selector service) of
        Inl err \<Rightarrow>
          (Inl (''error fetching pods for service '' @ Name service @ '': '' @ err), tick t)
      | Inr pods \<Rightarrow>
          (Inr (fst (pods_loop w pods [] Map.empty (tick t))),
           snd (pods_loop w pods [] Map.empty (tick t))))"
  by (simp add: getNodeIPsForService_def case_prod_beta split: sum.splits)

lemma getNodeIPsForService_sent: "sent (snd (getNodeIPsForService w t service)) = sent t"
  by (simp add: getNodeIPsForService_unfold pods_loop_sent sent_tick split: sum.splits)

lemma pods_loop_dedup:
  "pods_loop w pods nodeIPs nodeNames t = (ips', t') \<Longrightarrow>
     \<exists>new. ips' = nodeIPs @ map snd new \<and> distinct (map fst new)
       \<and> set (map fst new) \<subseteq> NodeName ` set pods - dom nodeNames
       \<and> list_all (looked_up w) new"
proof (induction pods arbitrary: nodeIPs nodeNames t)
  case Nil
  then show ?case by (intro exI [of _ "[]"]) simp
next
  case (Cons pod pods)
  show ?case
  proof (cases "nodeNames (NodeName pod)")
    case (Some b)
    with Cons.prems have "pods_loop w pods nodeIPs nodeNames t = (ips', t')" by simp
    from Cons.IH [OF this] obtain new where
      "ips' = nodeIPs @ map snd new" "distinct (map fst new)"
      "set (map fst new) \<subseteq> NodeName ` set pods - dom nodeNames" "list_all (looked_up w) new"
      by blast
    then show ?thesis by (intro exI [of _ new]) auto
  next
    case None
    show ?thesis
    proof (cases "Nodes_Get w (clock t) (NodeName pod)")
      case (Inl err)
      with None Cons.prems obtain t1 where "pods_loop w pods nodeIPs nodeNames t1 = (ips', t')"
        by simp
      from Cons.IH [OF this] obtain new where
        "ips' = nodeIPs @ map snd new" "distinct (map fst new)"
        "set (map fst new) \<subseteq> NodeName ` set pods - dom nodeNames" "list_all (looked_up w) new"
        by blast
      then show ?thesis by (intro exI [of _ new]) auto
    next
      case (Inr node)
      show ?thesis
      proof (cases "first_InternalIP (Addresses node)")
        case None' : None
        with None Inr Cons.prems have "pods_loop w pods nodeIPs nodeNames (tick t) = (ips', t')"
          by simp
        from Cons.IH [OF this] obtain new where
          "ips' = nodeIPs @ map snd new" "distinct (map fst new)"
          "set (map fst new) \<subseteq> NodeName ` set pods - dom nodeNames" "list_all (looked_up w) new"
          by blast
        then show ?thesis by (intro exI [of _ new]) auto
      next
        case (Some address)
        with None Inr Cons.prems have
          "pods_loop w pods (nodeIPs @ [address]) (nodeNames(NodeName pod \<mapsto> True)) (tick t) = (ips', t')"
          by simp
        from Cons.IH [OF this] obtain new where new:
          "ips' = (nodeIPs @ [address]) @ map snd new" "distinct (map fst new)"
          "set (map fst new) \<subseteq> NodeName ` set pods - dom (nodeNames(NodeName pod \<mapsto> True))"
          "list_all (looked_up w) new"
          by blast
        have "looked_up w (NodeName pod, address)"
          unfolding looked_up_def using Inr Some by auto
        with new None show ?thesis
          by (intro exI [of _ "(NodeName pod, address) # new"]) (auto simp: domIff)
      qed
    qed
  qed
qed

lemma pods_loop_exact:
  assumes "\<And>k n. n \<in> NodeName ` set pods \<Longrightarrow>
             \<exists>node a. Nodes_Get w k n = Inr node \<and> first_InternalIP (Addresses node) = Some a"
  shows "length (fst (pods_loop w pods nodeIPs nodeNames t))
           = length nodeIPs + card (NodeName ` set pods - dom nodeNames)"
  using assms
proof (induction pods arbitrary: nodeIPs nodeNames t)
  case Nil
  then show ?case by simp
next
  case (Cons pod pods)
  have IH: "\<And>nodeIPs nodeNames t. length (fst (pods_loop w pods nodeIPs nodeNames t))
           = length nodeIPs + card (NodeName ` set pods - dom nodeNames)"
    by (rule Cons.IH) (use Cons.prems in auto)
  show ?case
  proof (cases "nodeNames (NodeName pod)")
    case (Some b)
    then have "NodeName ` set (pod # pods) - dom nodeNames = NodeName ` set pods - dom nodeNames"
      by auto
    with Some IH show ?thesis by simp
  next
    case None
    from Cons.prems [of "NodeName pod" "clock t"] obtain node a where
      na: "Nodes_Get w (clock t) (NodeName pod) = Inr node" "first_InternalIP (Addresses node) = Some a"
      by auto
    have fin: "finite (NodeName ` set pods - insert (NodeName pod) (dom nodeNames))" by simp
    have "NodeName ` set (pod # pods) - dom nodeNames
            = insert (NodeName pod) (NodeName ` set pods - insert (NodeName pod) (dom nodeNames))"
      using None by (auto simp: domIff)
    then have "card (NodeName ` set (pod # pods) - dom nodeNames)
            = Suc (card (NodeName ` set pods - insert (NodeName pod) (dom nodeNames)))"
      using fin by simp
    with None na IH show ?thesis by simp
  qed
qed

lemma getNodeIPsForService_sent_eq:
  "getNodeIPsForService w t service = (r, t1) \<Longrightarrow> sent t1 = sent t"
  using getNodeIPsForService_sent [of w t service] by simp

lemma getNodeIPsForService_no_pods:
  "getNodeIPsForService (example_world [] found) t service = (Inr [], tick t)"
  by (simp add: getNodeIPsForService_def example_world_def)

section \<open>Claims about the resolver\<close>

text \<open>
  C7. Endpoint resolution deduplicates by owning node. When the pod listing succeeds,
  \<open>getNodeIPsForService\<close> succeeds, and its addresses stand one to one against a list of
  distinct node names, each the node of a listed pod and each looked up with that address
  as its first internal address: a node contributes at most one address, and there are
  at most as many addresses as distinct nodes. When every lookup of a listed node succeeds
  and finds an internal address, there are exactly as many; pods on the nodes A, A and B
  give 2 addresses.
\<close>

theorem getNodeIPsForService_dedup_by_node:
  assumes "Pods_List w (clock t) (Namespace service) (Selector service) = Inr pods"
  shows "\<exists>nodeIPs t' nodes.
           getNodeIPsForService w t service = (Inr nodeIPs, t')
           \<and> distinct nodes \<and> set nodes \<subseteq> NodeName ` set pods
           \<and> length nodeIPs = length nodes
           \<and> list_all (looked_up w) (zip nodes nodeIPs)
           \<and> length nodeIPs \<le> card (NodeName ` set pods)
           \<and> ((\<forall>k n. n \<in> NodeName ` set pods \<longrightarrow>
                  (\<exists>node a. Nodes_Get w k n = Inr node
                             \<and> first_InternalIP (Addresses node) = Some a))
                \<longrightarrow> length nodeIPs = card (NodeName ` set pods))"
proof -
  obtain nodeIPs t' where loop: "pods_loop w pods [] Map.empty (tick t) = (nodeIPs, t')"
    by (cases "pods_loop w pods [] Map.empty (tick t)")
  with assms have res: "getNodeIPsForService w t service = (Inr nodeIPs, t')"
    by (simp add: getNodeIPsForService_def)
  from pods_loop_dedup [OF loop] obtain new where new:
    "nodeIPs = map snd new" "distinct (map fst new)"
    "set (map fst new) \<subseteq> NodeName ` set pods" "list_all (looked_up w) new"
    by auto
  have zip: "zip (map fst new) (map snd new) = new"
    by (simp add: zip_map_fst_snd)
  have "length nodeIPs = card (set (map fst new))"
    using new(1) distinct_card [OF new(2)] by simp
  also have "\<dots> \<le> card (NodeName ` set pods)"
    using new(3) by (intro card_mono) auto
  finally have le: "length nodeIPs \<le> card (NodeName ` set pods)" .
  have exact: "length nodeIPs = card (NodeName ` set pods)"
    if "\<forall>k n. n \<in> NodeName ` set pods \<longrightarrow>
          (\<exists>node a. Nodes_Get w k n = Inr node \<and> first_InternalIP (Addresses node) = Some a)"
    using pods_loop_exact [of pods w "[]" Map.empty "tick t"] that loop by simp
  show ?thesis
    using res new zip le exact
    by (intro exI [of _ nodeIPs] exI [of _ t'] exI [of _ "map fst new"]) simp
qed

lemma getNodeIPsForService_example:
  "fst (getNodeIPsForService (example_world pods_AAB found) start web_service)
     = Inr [''10.0.0.1'', ''10.0.0.2'']"
  by (simp add: getNodeIPsForService_def example_world_def pods_AAB_def start_def tick_def
        example_node_def NodeInternalIP_def case_prod_beta)

theorem getNodeIPsForService_dedup_witness:
  "Pods_List (example_world pods_AAB OK_200) (clock start) (Namespace web_service)
       (Selector web_service) = Inr pods_AAB
   \<and> (\<exists>nodeIPs t'. getNodeIPsForService (example_world pods_AAB OK_200) start web_service
                       = (Inr nodeIPs, t') \<and> length nodeIPs = 2)"
proof -
  let ?w = "example_world pods_AAB OK_200"
  have h: "Pods_List ?w (clock start) (Namespace web_service) (Selector web_service) = Inr pods_AAB"
    by (simp add: example_world_def)
  have names: "NodeName ` set pods_AAB = {''A'', ''B''}"
    by (auto simp: pods_AAB_def)
  have all: "\<forall>k n. n \<in> NodeName ` set pods_AAB \<longrightarrow>
          (\<exists>node a. Nodes_Get ?w k n = Inr node \<and> first_InternalIP (Addresses node) = Some a)"
    unfolding names by (simp add: example_world_def example_node_def NodeInternalIP_def)
  have card: "card (NodeName ` set pods_AAB) = 2"
    unfolding names by simp
  from getNodeIPsForService_dedup_by_node [OF h] all card h show ?thesis
    by auto
qed

section \<open>Claims about the create and update paths\<close>

text \<open>
  C1 (as stated). The claim: a service whose resolution succeeds with no address, and
  that has a node port, still has a payload with an empty backend list sent to the remote
  API. In a cluster with no pod for the service, neither path hands any request to an HTTP
  client.
\<close>

theorem empty_endpoint_set_counterexample:
  "fst (getNodeIPsForService (example_world [] NotFound_404) start web_service) = Inr []
   \<and> 0 < length (Ports web_service) \<and> NodePort (Ports web_service ! 0) \<noteq> 0
   \<and> sent (createOriginPool basic_tables (example_world [] NotFound_404) start web_service) = []
   \<and> sent (updateOriginPool basic_tables (example_world [] NotFound_404) start web_service) = []"
  by (simp add: getNodeIPsForService_no_pods createOriginPool_def updateOriginPool_def
        sent_log_Printf sent_tick)
     (simp add: start_def web_service_def)

text \<open>
  C1 (amended). When resolution succeeds with no address, \<open>createOriginPool\<close> and
  \<open>updateOriginPool\<close> log that no nodes were found for the service and return: no payload
  is built and no request is sent, whatever the ports of the service are.
\<close>

theorem createOriginPool_skips_without_nodes:
  assumes "getNodeIPsForService w t service = (Inr [], t1)"
  shows "createOriginPool U w t service
           = log_Printf (''No nodes found for service '' @ Name service
                           @ '', skipping origin pool creation'') t1
         \<and> updateOriginPool U w t service
           = log_Printf (''No nodes found for service '' @ Name service
                           @ '', skipping origin pool creation'') t1
         \<and> sent (createOriginPool U w t service) = sent t
         \<and> sent (updateOriginPool U w t service) = sent t"
  using assms getNodeIPsForService_sent_eq [OF assms]
  by (simp add: createOriginPool_def updateOriginPool_def sent_log_Printf)

theorem createOriginPool_skips_without_nodes_witness:
  "getNodeIPsForService (example_world [] NotFound_404) start web_service = (Inr [], tick start)
   \<and> createOriginPool basic_tables (example_world [] NotFound_404) start web_service
       = \<lparr>clock = 1, logs = [''No nodes found for service web, skipping origin pool creation''],
          sent = []\<rparr>"
  using createOriginPool_skips_without_nodes
          [where w = "example_world [] NotFound_404" and t = start and service = web_service
             and ?t1.0 = "tick start" and U = basic_tables]
  by (simp add: getNodeIPsForService_no_pods log_Printf_def tick_def start_def web_service_def)

section \<open>The reconciler: requests sent and the example world\<close>

lemma createOriginPool_sent_without_port:
  assumes "Ports service = [] \<or> NodePort (Ports service ! 0) = 0"
  shows "sent (createOriginPool U w t service) = sent t"
proof -
  obtain r t1 where res: "getNodeIPsForService w t service = (r, t1)"
    by (cases "getNodeIPsForService w t service")
  from getNodeIPsForService_sent_eq [OF res] assms res show ?thesis
    by (cases r) (auto simp: createOriginPool_def sent_log_Printf Let_def)
qed

lemma updateOriginPool_sent_without_port:
  assumes "Ports service = [] \<or> NodePort (Ports service ! 0) = 0"
  shows "sent (updateOriginPool U w t service) = sent t"
proof -
  obtain r t1 where res: "getNodeIPsForService w t service = (r, t1)"
    by (cases "getNodeIPsForService w t service")
  from getNodeIPsForService_sent_eq [OF res] assms res show ?thesis
    by (cases r) (auto simp: updateOriginPool_def sent_log_Printf Let_def)
qed

lemma checkOriginPoolExists_sent:
  "sent (snd (checkOriginPoolExists U w t service)) = sent t
   \<or> sent (snd (checkOriginPoolExists U w t service))
       = sent t @ [\<lparr>Method = ''GET'',
                     URL = api_domain w @ ''/api/config/namespaces/'' @ xc_namespace w
                             @ ''/origin_pools/'' @ formatServiceName U (Name service),
                     Header = [(''Authorization'', ''APIToken '' @ xc_token w)],
                     Body = None\<rparr>]"
  by (auto simp: checkOriginPoolExists_def http_NewRequest_def Header_Set_def client_Do_def
        sent_tick Let_def split: option.splits sum.splits)

lemma manageOriginPool_sent_without_port:
  assumes "Ports service = [] \<or> NodePort (Ports service ! 0) = 0"
  shows "sent (manageOriginPool U w t service) = sent (snd (checkOriginPoolExists U w t service))"
proof -
  obtain r t1 where res: "checkOriginPoolExists U w t service = (r, t1)"
    by (cases "checkOriginPoolExists U w t service")
  show ?thesis
  proof (cases r)
    case (Inl err)
    with res show ?thesis by (simp add: manageOriginPool_def sent_log_Printf)
  next
    case (Inr exists)
    with res show ?thesis
      by (simp add: manageOriginPool_def sent_log_Printf
            createOriginPool_sent_without_port [OF assms]
            updateOriginPool_sent_without_port [OF assms])
  qed
qed

lemma example_world_simps:
  "Getenv (example_world pods found) = example_env"
  "Pods_List (example_world pods found) k ns sel = Inr pods"
  "Nodes_Get (example_world pods found) k = example_node"
  "NewRequest_error (example_world pods found) method url = None"
  "Client_Do (example_world pods found) k client req
     = Inr (if Method req = ''GET'' then found else \<lparr>StatusCode = 200, Status = ''200 OK''\<rparr>)"
  by (simp_all add: example_world_def)

lemma example_env_simps:
  "example_env ''API_DOMAIN'' = ''https://api.example.com''"
  "example_env ''XC_NAMESPACE'' = ''prod''"
  "example_env ''XC_TOKEN'' = ''secret''"
  "example_env ''XC_SITENAME'' = ''site1''"
  "example_env ''XC_SITEINTERFACE'' = ''Outside''"
  by (simp_all add: example_env_def)

lemmas config_defs =
  api_domain_def xc_namespace_def xc_token_def xc_sitename_def xc_siteinterface_def

lemma formatServiceName_web: "formatServiceName U ''web'' = ''web''"
  by (simp add: formatServiceName_eval)

lemma getNodeIPsForService_AAB:
  "getNodeIPsForService (example_world pods_AAB found) t service
     = (Inr [''10.0.0.1'', ''10.0.0.2''], t\<lparr>clock := clock t + 3\<rparr>)"
  by (simp add: getNodeIPsForService_def example_world_def pods_AAB_def tick_def
        example_node_def NodeInternalIP_def)

lemma checkOriginPoolExists_response:
  assumes "NewRequest_error w ''GET''
             (api_domain w @ ''/api/config/namespaces/'' @ xc_namespace w @ ''/origin_pools/''
                @ formatServiceName U (Name service)) = None"
    and "Client_Do w (clock t) \<lparr>Timeout = 10 * Second\<rparr>
           \<lparr>Method = ''GET'',
            URL = api_domain w @ ''/api/config/namespaces/'' @ xc_namespace w @ ''/origin_pools/''
                    @ formatServiceName U (Name service),
            Header = [(''Authorization'', ''APIToken '' @ xc_token w)],
            Body = None\<rparr> = Inr resp"
  shows "checkOriginPoolExists U w t service
           = (if StatusCode resp = 200 then Inr True
              else if StatusCode resp = 404 then Inr False
              else Inl (''unexpected HTTP status: '' @ Status resp),
              tick (t\<lparr>sent := sent t @
                 [\<lparr>Method = ''GET'',
                   URL = api_domain w @ ''/api/config/namespaces/'' @ xc_namespace w
                           @ ''/origin_pools/'' @ formatServiceName U (Name service),
                   Header = [(''Authorization'', ''APIToken '' @ xc_token w)],
                   Body = None\<rparr>]\<rparr>))"
  using assms
  by (simp add: checkOriginPoolExists_def http_NewRequest_def Header_Set_def client_Do_def Let_def)

lemma createOriginPool_example:
  "sent (createOriginPool U (example_world pods_AAB found) t web_service)
     = sent t @ [\<lparr>Method = ''POST'',
                   URL = ''https://api.example.com/api/config/namespaces/prod/origin_pools'',
                   Header = [(''Content-Type'', ''application/json''),
                             (''Authorization'', ''APIToken secret'')],
                   Body = Some (OriginPoolBody example_payload)\<rparr>]"
  by (simp add: createOriginPool_def getNodeIPsForService_AAB web_service_def
        formatServiceName_web json_Marshal_def http_NewRequest_def Header_Set_def client_Do_def
        example_world_simps example_env_simps config_defs example_payload_def
        sent_log_Printf sent_tick Let_def)

lemma updateOriginPool_example:
  "sent (updateOriginPool U (example_world pods_AAB found) t web_service)
     = sent t @ [\<lparr>Method = ''PUT'',
                   URL = ''https://api.example.com/api/config/namespaces/prod/origin_pools/web'',
                   Header = [(''Content-Type'', ''application/json''),
                             (''Authorization'', ''APIToken secret'')],
                   Body = Some (OriginPoolBody example_payload)\<rparr>]"
  by (simp add: updateOriginPool_def getNodeIPsForService_AAB web_service_def
        formatServiceName_web json_Marshal_def http_NewRequest_def Header_Set_def client_Do_def
        example_world_simps example_env_simps config_defs example_payload_def
        sent_log_Printf sent_tick Let_def)

lemma pods_loop_Getenv:
  "pods_loop (w\<lparr>Getenv := env\<rparr>) pods nodeIPs nodeNames t = pods_loop w pods nodeIPs nodeNames t"
  by (induction pods arbitrary: nodeIPs nodeNames t) (simp_all split: sum.splits option.splits)

lemma getNodeIPsForService_Getenv:
  "getNodeIPsForService (w\<lparr>Getenv := env\<rparr>) t service = getNodeIPsForService w t service"
  by (simp add: getNodeIPsForService_def pods_loop_Getenv cong: sum.case_cong)

lemma createOriginPool_ignores_site_interface:
  "createOriginPool U (w\<lparr>Getenv := (Getenv w)(''XC_SITEINTERFACE'' := side)\<rparr>) t service
     = createOriginPool U w t service"
  by (simp add: createOriginPool_def getNodeIPsForService_Getenv http_NewRequest_def
        client_Do_def xc_sitename_def Let_def
      cong: sum.case_cong prod.case_cong if_cong option.case_cong)

lemma updateOriginPool_ignores_site_interface:
  "updateOriginPool U (w\<lparr>Getenv := (Getenv w)(''XC_SITEINTERFACE'' := side)\<rparr>) t service
     = updateOriginPool U w t service"
  by (simp add: updateOriginPool_def getNodeIPsForService_Getenv http_NewRequest_def
        client_Do_def xc_sitename_def Let_def
      cong: sum.case_cong prod.case_cong if_cong option.case_cong)

section \<open>Claims about the node-port precondition\<close>

text \<open>
  C5 (as stated). The claim: for a service with no declared port, the precondition failure
  is logged and no remote call is made for the event. For such a service in a cluster
  with no pod for it, an add event whose existence check answers 404 logs the routing
  decision and that no nodes were found (the missing node port is not logged), and the
  existence check itself has been sent to the remote API.
\<close>

theorem no_node_port_counterexample:
  "Ports no_port_service = []
   \<and> logs (manageOriginPool basic_tables (example_world [] NotFound_404) start no_port_service)
       = [''Creating new origin pool: web'',
          ''No nodes found for service web, skipping origin pool creation'']
   \<and> map Method (sent (manageOriginPool basic_tables (example_world [] NotFound_404) start
                          no_port_service)) = [''GET'']"
  by (simp add: manageOriginPool_def checkOriginPoolExists_def createOriginPool_def
        getNodeIPsForService_no_pods http_NewRequest_def client_Do_def Header_Set_def Let_def
        formatServiceName_web no_port_service_def example_world_simps NotFound_404_def
        log_Printf_def tick_def start_def)

text \<open>
  C5 (amended). For a service with no declared port, or with node port 0 on its first
  declared port, \<open>createOriginPool\<close> and \<open>updateOriginPool\<close> send no request, so the only
  request of an add or update event is the existence check that \<open>manageOriginPool\<close> makes
  before it chooses the path. The line \<open>No NodePort found ...\<close> is what either path logs
  when endpoint resolution has returned at least one address; a failed or empty resolution
  returns before the port is looked at, with its own line.
\<close>

theorem no_node_port_aborts_before_request:
  assumes "Ports service = [] \<or> NodePort (Ports service ! 0) = 0"
  shows "sent (createOriginPool U w t service) = sent t
         \<and> sent (updateOriginPool U w t service) = sent t
         \<and> (sent (manageOriginPool U w t service) = sent t
            \<or> sent (manageOriginPool U w t service)
                = sent t @ [\<lparr>Method = ''GET'',
                              URL = api_domain w @ ''/api/config/namespaces/'' @ xc_namespace w
                                      @ ''/origin_pools/'' @ formatServiceName U (Name service),
                              Header = [(''Authorization'', ''APIToken '' @ xc_token w)],
                              Body = None\<rparr>])
         \<and> (\<forall>nodeIPs t1.
               getNodeIPsForService w t service = (Inr nodeIPs, t1) \<and> nodeIPs \<noteq> [] \<longrightarrow>
                 createOriginPool U w t service
                   = log_Printf (''No NodePort found for service '' @ Name service
                                   @ '', skipping origin pool creation'') t1
                 \<and> updateOriginPool U w t service
                   = log_Printf (''No NodePort found for service '' @ Name service
                                   @ '', skipping origin pool creation'') t1)"
proof (intro conjI allI impI)
  show "sent (createOriginPool U w t service) = sent t"
    by (rule createOriginPool_sent_without_port [OF assms])
  show "sent (updateOriginPool U w t service) = sent t"
    by (rule updateOriginPool_sent_without_port [OF assms])
  show "sent (manageOriginPool U w t service) = sent t
        \<or> sent (manageOriginPool U w t service)
            = sent t @ [\<lparr>Method = ''GET'',
                          URL = api_domain w @ ''/api/config/namespaces/'' @ xc_namespace w
                                  @ ''/origin_pools/'' @ formatServiceName U (Name service),
                          Header = [(''Authorization'', ''APIToken '' @ xc_token w)],
                          Body = None\<rparr>]"
    using checkOriginPoolExists_sent [of U w t service]
    by (simp only: manageOriginPool_sent_without_port [OF assms])
next
  fix nodeIPs t1
  assume res: "getNodeIPsForService w t service = (Inr nodeIPs, t1) \<and> nodeIPs \<noteq> []"
  with assms show "createOriginPool U w t service
      = log_Printf (''No NodePort found for service '' @ Name service
                      @ '', skipping origin pool creation'') t1"
    by (auto simp: createOriginPool_def Let_def)
  from res assms show "updateOriginPool U w t service
      = log_Printf (''No NodePort found for service '' @ Name service
                      @ '', skipping origin pool creation'') t1"
    by (auto simp: updateOriginPool_def Let_def)
qed

theorem no_node_port_aborts_witness:
  "Ports no_port_service = []
   \<and> createOriginPool basic_tables (example_world pods_AAB NotFound_404) start no_port_service
       = \<lparr>clock = 3, logs = [''No NodePort found for service web, skipping origin pool creation''],
          sent = []\<rparr>"
proof -
  have h: "Ports no_port_service = [] \<or> NodePort (Ports no_port_service ! 0) = 0"
    by (simp add: no_port_service_def)
  have r: "getNodeIPsForService (example_world pods_AAB NotFound_404) start no_port_service
             = (Inr [''10.0.0.1'', ''10.0.0.2''], start\<lparr>clock := clock start + 3\<rparr>)
           \<and> [''10.0.0.1'', ''10.0.0.2''] \<noteq> []"
    by (simp add: getNodeIPsForService_AAB)
  from no_node_port_aborts_before_request [OF h, of basic_tables "example_world pods_AAB NotFound_404" start] r
  have "createOriginPool basic_tables (example_world pods_AAB NotFound_404) start no_port_service
          = log_Printf (''No NodePort found for service '' @ Name no_port_service
                          @ '', skipping origin pool creation'') (start\<lparr>clock := clock start + 3\<rparr>)"
    by blast
  then show ?thesis
    by (simp add: no_port_service_def log_Printf_def start_def)
qed

section \<open>Claims about routing, deletion and the payload\<close>

text \<open>
  C6. For an add or update event on a service of type NodePort, when the existence check
  can be built and the remote API answers it: status 404 makes the check return false and
  the event run \<open>createOriginPool\<close>; status 200 makes it return true and the event run
  \<open>updateOriginPool\<close>; any other status makes the check return an error, which is logged,
  and the event ends there, with the existence check as its only call.
\<close>

theorem manageOriginPool_routes_on_existence:
  fixes U :: unicode_tables and w :: world and t :: trace and service :: Service
  defines "req \<equiv> \<lparr>Method = ''GET'',
                    URL = api_domain w @ ''/api/config/namespaces/'' @ xc_namespace w
                            @ ''/origin_pools/'' @ formatServiceName U (Name service),
                    Header = [(''Authorization'', ''APIToken '' @ xc_token w)],
                    Body = None\<rparr>"
  defines "t1 \<equiv> tick (t\<lparr>sent := sent t @ [req]\<rparr>)"
  assumes qualifies: "Type service = ServiceTypeNodePort"
    and event: "ev = OnAdd (ServiceObject service)
                \<or> ev = OnUpdate (ServiceObject oldService) (ServiceObject service)"
    and parses: "NewRequest_error w ''GET'' (URL req) = None"
    and answer: "Client_Do w (clock t) \<lparr>Timeout = 10 * Second\<rparr> req = Inr resp"
  shows "(StatusCode resp = 404 \<longrightarrow>
            checkOriginPoolExists U w t service = (Inr False, t1)
            \<and> handle_event U w t ev
                = createOriginPool U w
                    (log_Printf (''Creating new origin pool: '' @ Name service) t1) service)
         \<and> (StatusCode resp = 200 \<longrightarrow>
            checkOriginPoolExists U w t service = (Inr True, t1)
            \<and> handle_event U w t ev
                = updateOriginPool U w
                    (log_Printf (''Origin pool already exists, updating: '' @ Name service) t1)
                    service)
         \<and> (StatusCode resp \<noteq> 200 \<and> StatusCode resp \<noteq> 404 \<longrightarrow>
            checkOriginPoolExists U w t service
              = (Inl (''unexpected HTTP status: '' @ Status resp), t1)
            \<and> handle_event U w t ev
                = log_Printf (''Error checking if origin pool exists: unexpected HTTP status: ''
                                @ Status resp) t1)"
proof -
  have ev: "handle_event U w t ev = manageOriginPool U w t service"
    using event qualifies by auto
  have chk: "checkOriginPoolExists U w t service
           = (if StatusCode resp = 200 then Inr True
              else if StatusCode resp = 404 then Inr False
              else Inl (''unexpected HTTP status: '' @ Status resp), t1)"
    using checkOriginPoolExists_response [of w U service t resp] parses answer
    by (simp add: req_def t1_def)
  show ?thesis
    unfolding ev by (simp add: chk manageOriginPool_def)
qed

theorem manageOriginPool_routes_witness:
  "map Method (sent (handle_event basic_tables (example_world pods_AAB NotFound_404) start
                       (OnAdd (ServiceObject web_service)))) = [''GET'', ''POST'']
   \<and> map Method (sent (handle_event basic_tables (example_world pods_AAB OK_200) start
                         (OnUpdate (ServiceObject no_port_service) (ServiceObject web_service))))
       = [''GET'', ''PUT'']
   \<and> map Method (sent (handle_event basic_tables (example_world pods_AAB ServerError_500) start
                         (OnAdd (ServiceObject web_service)))) = [''GET'']"
proof -
  have q: "Type web_service = ServiceTypeNodePort"
    by (simp add: web_service_def ServiceTypeNodePort_def)
  note route = manageOriginPool_routes_on_existence [OF q, where U = basic_tables and t = start]
  have a: "map Method (sent (handle_event basic_tables (example_world pods_AAB NotFound_404) start
                       (OnAdd (ServiceObject web_service)))) = [''GET'', ''POST'']"
    using route [where w = "example_world pods_AAB NotFound_404" and resp = NotFound_404
                   and ev = "OnAdd (ServiceObject web_service)"]
    by (simp add: example_world_simps NotFound_404_def createOriginPool_example
          sent_log_Printf sent_tick start_def)
  have b: "map Method (sent (handle_event basic_tables (example_world pods_AAB OK_200) start
                         (OnUpdate (ServiceObject no_port_service) (ServiceObject web_service))))
       = [''GET'', ''PUT'']"
    using route [where w = "example_world pods_AAB OK_200" and resp = OK_200
                   and ev = "OnUpdate (ServiceObject no_port_service) (ServiceObject web_service)"
                   and oldService = no_port_service]
    by (simp add: example_world_simps OK_200_def updateOriginPool_example
          sent_log_Printf sent_tick start_def)
  have c: "map Method (sent (handle_event basic_tables (example_world pods_AAB ServerError_500) start
                         (OnAdd (ServiceObject web_service)))) = [''GET'']"
    using route [where w = "example_world pods_AAB ServerError_500" and resp = ServerError_500
                   and ev = "OnAdd (ServiceObject web_service)"]
    by (simp add: example_world_simps ServerError_500_def sent_log_Printf sent_tick start_def)
  from a b c show ?thesis by simp
qed

text \<open>
  C8. For a delete event on a service of type NodePort (the request being well formed),
  exactly one request is handed to the HTTP client and it is the only call made: a
  \<^verbatim>\<open>DELETE\<close> at the resource URL of the canonicalized name, with no existence check
  before it, whose body carries \<open>fail_if_referred = false\<close>.
\<close>

theorem deleteOriginPool_one_unconditional_delete:
  fixes U :: unicode_tables and w :: world and t :: trace and service :: Service
  defines "url \<equiv> Getenv w ''API_DOMAIN'' @ ''/api/config/namespaces/'' @ Getenv w ''XC_NAMESPACE''
                    @ ''/origin_pools/'' @ formatServiceName U (Name service)"
  assumes qualifies: "Type service = ServiceTypeNodePort"
    and parses: "NewRequest_error w ''DELETE'' url = None"
  shows "sent (handle_event U w t (OnDelete (ServiceObject service)))
           = sent t @ [\<lparr>Method = ''DELETE'', URL = url,
                         Header = [(''Content-Type'', ''application/json''),
                                   (''Authorization'', ''APIToken '' @ Getenv w ''XC_TOKEN'')],
                         Body = Some (DeleteBody
                                  \<lparr>FailIfReferred = False,
                                   Delete_Name = formatServiceName U (Name service),
                                   Delete_Namespace = Getenv w ''XC_NAMESPACE''\<rparr>)\<rparr>]
         \<and> clock (handle_event U w t (OnDelete (ServiceObject service))) = Suc (clock t)"
  using qualifies parses
  by (simp add: url_def deleteOriginPool_def json_Marshal_def http_NewRequest_def Header_Set_def
        client_Do_def log_Printf_def tick_def Let_def split: sum.splits)

theorem deleteOriginPool_witness:
  "Type web_service = ServiceTypeNodePort
   \<and> sent (handle_event basic_tables (example_world pods_AAB OK_200) start
             (OnDelete (ServiceObject web_service)))
       = [\<lparr>Method = ''DELETE'',
           URL = ''https://api.example.com/api/config/namespaces/prod/origin_pools/web'',
           Header = [(''Content-Type'', ''application/json''),
                     (''Authorization'', ''APIToken secret'')],
           Body = Some (DeleteBody \<lparr>FailIfReferred = False, Delete_Name = ''web'',
                                    Delete_Namespace = ''prod''\<rparr>)\<rparr>]"
proof -
  have q: "Type web_service = ServiceTypeNodePort"
    by (simp add: web_service_def ServiceTypeNodePort_def)
  from deleteOriginPool_one_unconditional_delete
         [OF q, where w = "example_world pods_AAB OK_200" and U = basic_tables and t = start]
  have "sent (handle_event basic_tables (example_world pods_AAB OK_200) start
                (OnDelete (ServiceObject web_service)))
          = [\<lparr>Method = ''DELETE'',
              URL = ''https://api.example.com/api/config/namespaces/prod/origin_pools/''
                      @ formatServiceName basic_tables (Name web_service),
              Header = [(''Content-Type'', ''application/json''),
                        (''Authorization'', ''APIToken secret'')],
              Body = Some (DeleteBody \<lparr>FailIfReferred = False,
                             Delete_Name = formatServiceName basic_tables (Name web_service),
                             Delete_Namespace = ''prod''\<rparr>)\<rparr>]"
    by (simp add: example_world_simps example_env_simps start_def)
  with q show ?thesis
    by (simp add: web_service_def formatServiceName_web)
qed

text \<open>
  C9. For the same service, cluster and starting trace (the two requests being well
  formed), \<open>createOriginPool\<close> and \<open>updateOriginPool\<close> either both send nothing or each send
  one request, with the same headers and the same payload; the requests differ in the
  method (\<^verbatim>\<open>POST\<close> against \<^verbatim>\<open>PUT\<close>) and in the URL (the collection against the
  resource of the canonicalized name).
\<close>

theorem create_update_same_payload:
  fixes U :: unicode_tables and w :: world and t :: trace and service :: Service
  defines "collection \<equiv> Getenv w ''API_DOMAIN'' @ ''/api/config/namespaces/''
                           @ Getenv w ''XC_NAMESPACE'' @ ''/origin_pools''"
  assumes post: "NewRequest_error w ''POST'' collection = None"
    and put: "NewRequest_error w ''PUT''
                (collection @ ''/'' @ formatServiceName U (Name service)) = None"
  shows "(sent (createOriginPool U w t service) = sent t
          \<and> sent (updateOriginPool U w t service) = sent t)
         \<or> (\<exists>header payload.
               sent (createOriginPool U w t service)
                 = sent t @ [\<lparr>Method = ''POST'', URL = collection,
                               Header = header, Body = Some (OriginPoolBody payload)\<rparr>]
               \<and> sent (updateOriginPool U w t service)
                 = sent t @ [\<lparr>Method = ''PUT'',
                               URL = collection @ ''/'' @ formatServiceName U (Name service),
                               Header = header, Body = Some (OriginPoolBody payload)\<rparr>])"
proof -
  obtain r t1 where res: "getNodeIPsForService w t service = (r, t1)"
    by (cases "getNodeIPsForService w t service")
  have t1: "sent t1 = sent t"
    by (rule getNodeIPsForService_sent_eq [OF res])
  show ?thesis
  proof (cases r)
    case (Inl err)
    with res t1 show ?thesis
      by (simp add: createOriginPool_def updateOriginPool_def sent_log_Printf)
  next
    case (Inr nodeIPs)
    show ?thesis
    proof (cases "nodeIPs \<noteq> [] \<and> 0 < length (Ports service) \<and> NodePort (Ports service ! 0) \<noteq> 0")
      case False
      with res t1 Inr show ?thesis
        by (auto simp: createOriginPool_def updateOriginPool_def sent_log_Printf Let_def)
    next
      case True
      with res t1 Inr post put show ?thesis
        by (simp add: collection_def createOriginPool_def updateOriginPool_def json_Marshal_def
              http_NewRequest_def Header_Set_def client_Do_def sent_log_Printf sent_tick Let_def
              split: sum.splits)
    qed
  qed
qed

theorem create_update_same_payload_witness:
  "sent (createOriginPool basic_tables (example_world pods_AAB OK_200) start web_service)
     = [\<lparr>Method = ''POST'',
         URL = ''https://api.example.com/api/config/namespaces/prod/origin_pools'',
         Header = [(''Content-Type'', ''application/json''),
                   (''Authorization'', ''APIToken secret'')],
         Body = Some (OriginPoolBody example_payload)\<rparr>]
   \<and> map Body (sent (updateOriginPool basic_tables (example_world pods_AAB OK_200) start
                       web_service))
       = [Some (OriginPoolBody example_payload)]"
proof -
  let ?w = "example_world pods_AAB OK_200"
  have c: "sent (createOriginPool basic_tables ?w start web_service)
     = [\<lparr>Method = ''POST'',
         URL = ''https://api.example.com/api/config/namespaces/prod/origin_pools'',
         Header = [(''Content-Type'', ''application/json''),
                   (''Authorization'', ''APIToken secret'')],
         Body = Some (OriginPoolBody example_payload)\<rparr>]"
    by (simp add: createOriginPool_example start_def)
  from create_update_same_payload [where w = ?w and U = basic_tables and t = start
                                     and service = web_service]
  have "map Body (sent (updateOriginPool basic_tables ?w start web_service))
          = map Body (sent (createOriginPool basic_tables ?w start web_service))"
    by (auto simp: example_world_simps start_def)
  with c show ?thesis by simp
qed

text \<open>
  C4. The claim: each backend entry tags its address with the network side configured
  for the site. With \<^verbatim>\<open>XC_SITEINTERFACE\<close> set to \<open>Outside\<close>, both paths send a payload
  whose backend entries carry \<open>inside_network = {}\<close> and \<open>outside_network = null\<close>: the side
  is fixed to inside, and (by the two lemmas on \<open>XC_SITEINTERFACE\<close> above) no value of the
  variable changes anything either path does.
\<close>

theorem backend_entries_tagged_inside_despite_outside:
  "xc_siteinterface (example_world pods_AAB OK_200) = ''Outside''
   \<and> map Body (sent (createOriginPool basic_tables (example_world pods_AAB OK_200) start
                       web_service)) = [Some (OriginPoolBody example_payload)]
   \<and> map Body (sent (updateOriginPool basic_tables (example_world pods_AAB OK_200) start
                       web_service)) = [Some (OriginPoolBody example_payload)]
   \<and> map (\<lambda>server. (IP (PrivateIP server), InsideNetwork (PrivateIP server),
                      OutsideNetwork (PrivateIP server)))
        (OriginServers (Spec example_payload))
       = [(''10.0.0.1'', Some [], None), (''10.0.0.2'', Some [], None)]"
  by (simp add: createOriginPool_example updateOriginPool_example start_def
        xc_siteinterface_def example_world_simps example_env_simps)
     (simp add: example_payload_def)

text \<open>
  C10. \<open>formatServiceName\<close> is not injective: the distinct names \<open>My.Service\<close> and
  \<open>my-service\<close> both map to \<open>my-service\<close>, so services with these names are checked for
  existence and deleted at the same remote resource.
\<close>

theorem formatServiceName_not_injective:
  "''My.Service'' \<noteq> ''my-service''
   \<and> formatServiceName U ''My.Service'' = ''my-service''
   \<and> formatServiceName U ''my-service'' = ''my-service''
   \<and> \<not> inj (formatServiceName U)
   \<and> checkOriginPoolExists U w t (service\<lparr>Name := ''My.Service''\<rparr>)
       = checkOriginPoolExists U w t (service\<lparr>Name := ''my-service''\<rparr>)
   \<and> deleteOriginPool U w t (service\<lparr>Name := ''My.Service''\<rparr>)
       = deleteOriginPool U w t (service\<lparr>Name := ''my-service''\<rparr>)"
proof -
  have a: "formatServiceName U ''My.Service'' = ''my-service''"
    by (simp add: formatServiceName_eval)
  have b: "formatServiceName U ''my-service'' = ''my-service''"
    by (simp add: formatServiceName_eval)
  have "\<not> inj (formatServiceName U)"
  proof
    assume "inj (formatServiceName U)"
    moreover have "formatServiceName U ''My.Service'' = formatServiceName U ''my-service''"
      by (simp only: a b)
    ultimately have "''My.Service'' = ''my-service''"
      by (rule injD)
    then show False by simp
  qed
  with a b show ?thesis
    by (simp add: checkOriginPoolExists_def deleteOriginPool_def)
qed

end
